theory Spec2Isabelle
  imports Complex_Main "HOL-Library.List_Lexorder" "HOL-Library.Char_ord"
begin

section \<open>Research Analyzer: the store and its operations\<close>

text \<open>
  A shallow embedding of \<^verbatim>\<open>src/research_analyzer.py\<close>. The SQLite database is a
  record of its four relations, each a list of rows in table order. A method of
  \<^verbatim>\<open>ResearchAnalyzer\<close> takes the database and returns the database after the
  \<^verbatim>\<open>with sqlite3.connect(...)\<close> block has committed; an exception inside the block
  rolls the transaction back, so a failing method returns its error and no new database.
  The dataclasses and the methods \<^verbatim>\<open>add_paper\<close>, \<^verbatim>\<open>get_paper\<close>, \<^verbatim>\<open>update_score\<close>,
  \<^verbatim>\<open>update_status\<close>, \<^verbatim>\<open>delete_paper\<close>, \<^verbatim>\<open>add_hypothesis\<close>, \<^verbatim>\<open>update_hypothesis\<close>,
  \<^verbatim>\<open>add_citation\<close>, \<^verbatim>\<open>search\<close> and \<^verbatim>\<open>corpus_stats\<close> are embedded, with the helpers
  \<^verbatim>\<open>_paper_id\<close>, \<^verbatim>\<open>_row_to_paper\<close> and \<^verbatim>\<open>_row_to_summary\<close> under their names without the
  leading underscore; \<^verbatim>\<open>list_papers\<close>, \<^verbatim>\<open>top_papers\<close>, the demo and the command line are
  not.

  Conventions of the embedding:
  \<^item> Python \<^verbatim>\<open>float\<close> and SQLite \<^verbatim>\<open>REAL\<close> are idealised as \<^typ>\<open>real\<close> (no NaN, no
    rounding error of the binary representation).
  \<^item> Strings are \<^typ>\<open>string\<close> and are read as ASCII text: \<^verbatim>\<open>str.lower\<close> and SQL
    \<^verbatim>\<open>lower\<close> change the letters A to Z and nothing else.
  \<^item> A column written with \<^verbatim>\<open>json.dumps\<close> and read with \<^verbatim>\<open>json.loads\<close> holds the list
    itself; where SQL reads the column as text (the \<^verbatim>\<open>LIKE\<close> of \<^verbatim>\<open>search\<close>), the text
    is computed by \<open>json_dumps\<close>.
  \<^item> The clock and \<^verbatim>\<open>hashlib.md5\<close> are outside the repository. Each reading of the
    clock is an argument of the method that reads it (\<open>sec\<close> for the
    \<^verbatim>\<open>strftime("%Y%m%dT%H%M%S")\<close> of \<^verbatim>\<open>_paper_id\<close>, \<open>ts\<close> for \<^verbatim>\<open>_now()\<close>), and the
    digest \<^verbatim>\<open>hashlib.md5(s.encode()).hexdigest()\<close> is a function argument \<open>md5\<close>.
\<close>

subsection \<open>Data models\<close>

datatype error =
  ValueError | KeyError | IntegrityError | ZeroDivisionError | OperationalError | DatabaseError

datatype scalar = JNull | JBool bool | JInt int | JFloat real | JStr string

text \<open>The dataclasses \<^verbatim>\<open>Hypothesis\<close>, \<^verbatim>\<open>Citation\<close> and \<^verbatim>\<open>ResearchPaper\<close>.\<close>

record Hypothesis =
  hyp_id :: string
  hyp_text :: string
  hyp_status :: string
  hyp_confidence :: real
  hyp_evidence :: "string list"
  hyp_created_at :: string
  hyp_updated_at :: string

record Citation =
  cit_ref_id :: string
  cit_title :: string
  cit_authors :: "string list"
  cit_year :: "int option"
  cit_url :: string
  cit_notes :: string

record ResearchPaper =
  rp_id :: string
  rp_title :: string
  rp_abstract :: string
  rp_authors :: "string list"
  rp_tags :: "string list"
  rp_hypotheses :: "Hypothesis list"
  rp_citations :: "Citation list"
  rp_status :: string
  rp_score :: real
  rp_created_at :: string
  rp_updated_at :: string
  rp_metadata :: "(string \<times> scalar) list"

definition is_active :: "Hypothesis \<Rightarrow> bool" where
  "is_active h = (hyp_status h = ''proposed'' \<or> hyp_status h = ''testing'')"

definition update_confidence :: "Hypothesis \<Rightarrow> real \<Rightarrow> Hypothesis" where
  "update_confidence h delta =
     h\<lparr>hyp_confidence := max 0 (min 1 (hyp_confidence h + delta))\<rparr>"

definition confirmed_hypotheses :: "ResearchPaper \<Rightarrow> Hypothesis list" where
  "confirmed_hypotheses p = filter (\<lambda>h. hyp_status h = ''confirmed'') (rp_hypotheses p)"

text \<open>Python's \<^verbatim>\<open>/\<close> raises \<^verbatim>\<open>ZeroDivisionError\<close> on a zero denominator.\<close>

definition py_div :: "real \<Rightarrow> nat \<Rightarrow> error + real" where
  "py_div a n = (if n = 0 then Inl ZeroDivisionError else Inr (a / real n))"

definition avg_confidence :: "ResearchPaper \<Rightarrow> error + real option" where
  "avg_confidence p =
     (let active = map hyp_confidence (filter is_active (rp_hypotheses p))
      in if active \<noteq> []
         then (case py_div (sum_list active) (length active) of
                 Inl e \<Rightarrow> Inl e
               | Inr v \<Rightarrow> Inr (Some v))
         else Inr None)"

subsection \<open>The relations of the database\<close>

record paper_row =
  p_id :: string
  p_title :: string
  p_abstract :: string
  p_authors :: "string list"
  p_tags :: "string list"
  p_status :: string
  p_score :: real
  p_created_at :: string
  p_updated_at :: string
  p_metadata :: "(string \<times> scalar) list"

record hyp_row =
  h_id :: string
  h_paper_id :: string
  h_text :: string
  h_status :: string
  h_confidence :: real
  h_evidence :: "string list"
  h_created_at :: string
  h_updated_at :: string

record cit_row =
  c_id :: nat
  c_paper_id :: string
  c_ref_id :: string
  c_title :: string
  c_authors :: "string list"
  c_year :: "int option"
  c_url :: string
  c_notes :: string

text \<open>
  One entry of the full-text index \<^verbatim>\<open>papers_fts\<close>: what one
  \<^verbatim>\<open>INSERT INTO papers_fts(id, title, abstract, tags)\<close> hands to the index.
\<close>

record fts_row =
  f_id :: string
  f_title :: string
  f_abstract :: string
  f_tags :: string

text \<open>
  \<open>cit_seq\<close> is the \<^verbatim>\<open>AUTOINCREMENT\<close> counter of \<^verbatim>\<open>citations\<close>: the largest id ever
  handed out.
\<close>

record database =
  papers :: "paper_row list"
  hypotheses :: "hyp_row list"
  citations :: "cit_row list"
  papers_fts :: "fts_row list"
  cit_seq :: nat

definition init_db :: database where
  "init_db = \<lparr>papers = [], hypotheses = [], citations = [], papers_fts = [], cit_seq = 0\<rparr>"

subsection \<open>Helpers\<close>

definition lower_char :: "char \<Rightarrow> char" where
  "lower_char c =
     (case map_of (zip ''ABCDEFGHIJKLMNOPQRSTUVWXYZ'' ''abcdefghijklmnopqrstuvwxyz'') c of
        Some d \<Rightarrow> d
      | None \<Rightarrow> c)"

definition lower :: "string \<Rightarrow> string" where
  "lower s = map lower_char s"

definition is_slug_char :: "char \<Rightarrow> bool" where
  "is_slug_char c = (c \<in> set ''abcdefghijklmnopqrstuvwxyz0123456789'')"

text \<open>
  \<^verbatim>\<open>re.sub(r"[^a-z0-9]+", "-", s)\<close>: every maximal run of characters outside
  \<^verbatim>\<open>[a-z0-9]\<close> becomes one hyphen.
\<close>

function slug_sub :: "string \<Rightarrow> string" where
  "slug_sub [] = []"
| "slug_sub (c # cs) =
     (if is_slug_char c then c # slug_sub cs
      else CHR ''-'' # slug_sub (dropWhile (\<lambda>d. \<not> is_slug_char d) cs))"
  by pat_completeness auto
termination
  by (relation "measure length") (auto simp: length_dropWhile_le less_Suc_eq_le)

definition strip_hyphen :: "string \<Rightarrow> string" where
  "strip_hyphen s =
     rev (dropWhile (\<lambda>c. c = CHR ''-'') (rev (dropWhile (\<lambda>c. c = CHR ''-'') s)))"

definition paper_id :: "(string \<Rightarrow> string) \<Rightarrow> string \<Rightarrow> string \<Rightarrow> string" where
  "paper_id md5 sec title =
     (let h = take 10 (md5 (title @ sec));
          slug = strip_hyphen (take 24 (slug_sub (lower title)))
      in slug @ ''-'' @ h)"

text \<open>\<^verbatim>\<open>xs or []\<close> for an optional list argument.\<close>

definition or_empty :: "'a list option \<Rightarrow> 'a list" where
  "or_empty xs = (case xs of None \<Rightarrow> [] | Some ys \<Rightarrow> ys)"

fun join_space :: "string list \<Rightarrow> string" where
  "join_space [] = []"
| "join_space [x] = x"
| "join_space (x # y # ys) = x @ '' '' @ join_space (y # ys)"

text \<open>Python's \<^verbatim>\<open>q in s\<close> on strings: \<open>q\<close> occurs in \<open>s\<close> as a contiguous substring.\<close>

fun starts_with :: "string \<Rightarrow> string \<Rightarrow> bool" where
  "starts_with [] s = True"
| "starts_with (c # cs) [] = False"
| "starts_with (c # cs) (d # ds) = (c = d \<and> starts_with cs ds)"

fun contains :: "string \<Rightarrow> string \<Rightarrow> bool" where
  "contains q [] = (q = [])"
| "contains q (d # ds) = (starts_with q (d # ds) \<or> contains q ds)"

definition matches_query :: "ResearchPaper \<Rightarrow> string \<Rightarrow> bool" where
  "matches_query p query =
     (let q = lower query;
          hay = lower (join_space ([rp_title p, rp_abstract p] @ rp_tags p))
      in contains q hay)"

subsection \<open>Paper CRUD\<close>

text \<open>
  \<^verbatim>\<open>INSERT OR IGNORE INTO papers\<close>: \<^verbatim>\<open>id\<close> is the primary key, so a row whose id is
  already in the table is dropped and every other row is appended.
\<close>

definition insert_or_ignore_paper :: "paper_row list \<Rightarrow> paper_row \<Rightarrow> paper_row list" where
  "insert_or_ignore_paper rows r =
     (if p_id r \<in> set (map p_id rows) then rows else rows @ [r])"

text \<open>
  \<^verbatim>\<open>INSERT OR IGNORE INTO papers_fts\<close>: the virtual table declares no key and the
  statement gives no rowid, so no insert conflicts with a stored entry and
  \<^verbatim>\<open>OR IGNORE\<close> never drops one: every call appends.
\<close>

definition insert_or_ignore_fts :: "fts_row list \<Rightarrow> fts_row \<Rightarrow> fts_row list" where
  "insert_or_ignore_fts rows r = rows @ [r]"

definition add_paper ::
  "(string \<Rightarrow> string) \<Rightarrow> string \<Rightarrow> string \<Rightarrow> database \<Rightarrow> string \<Rightarrow> string \<Rightarrow>
   string list option \<Rightarrow> string list option \<Rightarrow> (string \<times> scalar) list option \<Rightarrow>
   database \<times> string" where
  "add_paper md5 sec ts db title abstract authors tags metadata =
     (let pid = paper_id md5 sec title;
          db1 = db\<lparr>papers := insert_or_ignore_paper (papers db)
                  \<lparr>p_id = pid, p_title = title, p_abstract = abstract,
                   p_authors = or_empty authors, p_tags = or_empty tags,
                   p_status = ''draft'', p_score = 0,
                   p_created_at = ts, p_updated_at = ts,
                   p_metadata = or_empty metadata\<rparr>\<rparr>;
          db2 = db1\<lparr>papers_fts := insert_or_ignore_fts (papers_fts db1)
                  \<lparr>f_id = pid, f_title = title, f_abstract = abstract,
                   f_tags = join_space (or_empty tags)\<rparr>\<rparr>
      in (db2, pid))"

definition row_to_paper :: "database \<Rightarrow> paper_row \<Rightarrow> ResearchPaper" where
  "row_to_paper db row =
     (let pid = p_id row;
          hyp_rows = sort_key h_created_at (filter (\<lambda>h. h_paper_id h = pid) (hypotheses db));
          hyps = map (\<lambda>h. \<lparr>hyp_id = h_id h, hyp_text = h_text h, hyp_status = h_status h,
                            hyp_confidence = h_confidence h, hyp_evidence = h_evidence h,
                            hyp_created_at = h_created_at h,
                            hyp_updated_at = h_updated_at h\<rparr>) hyp_rows;
          cit_rows = filter (\<lambda>c. c_paper_id c = pid) (citations db);
          cits = map (\<lambda>c. \<lparr>cit_ref_id = c_ref_id c, cit_title = c_title c,
                            cit_authors = c_authors c, cit_year = c_year c,
                            cit_url = c_url c, cit_notes = c_notes c\<rparr>) cit_rows
      in \<lparr>rp_id = pid, rp_title = p_title row, rp_abstract = p_abstract row,
          rp_authors = p_authors row, rp_tags = p_tags row,
          rp_hypotheses = hyps, rp_citations = cits,
          rp_status = p_status row, rp_score = p_score row,
          rp_created_at = p_created_at row, rp_updated_at = p_updated_at row,
          rp_metadata = p_metadata row\<rparr>)"

definition get_paper :: "database \<Rightarrow> string \<Rightarrow> ResearchPaper option" where
  "get_paper db paper_id' =
     (case find (\<lambda>r. p_id r = paper_id') (papers db) of
        None \<Rightarrow> None
      | Some row \<Rightarrow> Some (row_to_paper db row))"

definition update_score :: "string \<Rightarrow> database \<Rightarrow> string \<Rightarrow> real \<Rightarrow> database" where
  "update_score ts db pid score =
     db\<lparr>papers := map (\<lambda>r. if p_id r = pid
                            then r\<lparr>p_score := max 0 (min 10 score), p_updated_at := ts\<rparr>
                            else r) (papers db)\<rparr>"

definition update_status :: "string \<Rightarrow> database \<Rightarrow> string \<Rightarrow> string \<Rightarrow> error + database" where
  "update_status ts db pid status =
     (if status \<notin> {''draft'', ''review'', ''published'', ''archived''} then Inl ValueError
      else Inr (db\<lparr>papers := map (\<lambda>r. if p_id r = pid
                                       then r\<lparr>p_status := status, p_updated_at := ts\<rparr>
                                       else r) (papers db)\<rparr>))"

text \<open>
  The three \<^verbatim>\<open>DELETE\<close> statements in the order of the source; \<^verbatim>\<open>cur.rowcount\<close> is the
  number of rows the last one removed.
\<close>

definition delete_paper :: "database \<Rightarrow> string \<Rightarrow> database \<times> bool" where
  "delete_paper db pid =
     (let db1 = db\<lparr>hypotheses := filter (\<lambda>h. h_paper_id h \<noteq> pid) (hypotheses db)\<rparr>;
          db2 = db1\<lparr>citations := filter (\<lambda>c. c_paper_id c \<noteq> pid) (citations db1)\<rparr>;
          rowcount = length (filter (\<lambda>r. p_id r = pid) (papers db2));
          db3 = db2\<lparr>papers := filter (\<lambda>r. p_id r \<noteq> pid) (papers db2)\<rparr>
      in (db3, rowcount > 0))"

subsection \<open>Hypotheses\<close>

text \<open>
  A plain \<^verbatim>\<open>INSERT\<close>: a second row with a stored primary key raises
  \<^verbatim>\<open>sqlite3.IntegrityError\<close>. The foreign key on \<^verbatim>\<open>paper_id\<close> is declared and not
  enforced (the connection never turns \<^verbatim>\<open>PRAGMA foreign_keys\<close> on). The default of
  \<open>confidence\<close> is \<open>0.5\<close>.
\<close>

definition add_hypothesis ::
  "(string \<Rightarrow> string) \<Rightarrow> string \<Rightarrow> database \<Rightarrow> string \<Rightarrow> string \<Rightarrow> real \<Rightarrow>
   string list option \<Rightarrow> error + database \<times> string" where
  "add_hypothesis md5 ts db pid text' confidence evidence =
     (let hid = take 12 (md5 (pid @ text' @ ts))
      in if hid \<in> set (map h_id (hypotheses db)) then Inl IntegrityError
         else Inr (db\<lparr>hypotheses := hypotheses db @
                     [\<lparr>h_id = hid, h_paper_id = pid, h_text = text',
                       h_status = ''proposed'', h_confidence = confidence,
                       h_evidence = or_empty evidence,
                       h_created_at = ts, h_updated_at = ts\<rparr>]\<rparr>, hid))"

text \<open>
  \<^verbatim>\<open>status or row[3]\<close> and \<^verbatim>\<open>evidence or json.loads(row[5])\<close> test truthiness: the
  empty string and the empty list are falsy, like \<^verbatim>\<open>None\<close>. \<^verbatim>\<open>confidence\<close> is tested
  with \<^verbatim>\<open>is not None\<close>.
\<close>

definition update_hypothesis ::
  "string \<Rightarrow> database \<Rightarrow> string \<Rightarrow> string option \<Rightarrow> real option \<Rightarrow>
   string list option \<Rightarrow> error + database" where
  "update_hypothesis ts db hyp_id' status confidence evidence =
     (case find (\<lambda>h. h_id h = hyp_id') (hypotheses db) of
        None \<Rightarrow> Inl KeyError
      | Some row \<Rightarrow>
          (let new_status = (case status of
                               None \<Rightarrow> h_status row
                             | Some s \<Rightarrow> if s = [] then h_status row else s);
               new_confidence = (case confidence of
                                   None \<Rightarrow> h_confidence row
                                 | Some c \<Rightarrow> c);
               ev_list = (case evidence of
                            None \<Rightarrow> h_evidence row
                          | Some e \<Rightarrow> if e = [] then h_evidence row else e)
           in Inr (db\<lparr>hypotheses :=
                     map (\<lambda>h. if h_id h = hyp_id'
                               then h\<lparr>h_status := new_status,
                                      h_confidence := new_confidence,
                                      h_evidence := ev_list, h_updated_at := ts\<rparr>
                               else h) (hypotheses db)\<rparr>)))"

subsection \<open>Citations\<close>

definition add_citation ::
  "database \<Rightarrow> string \<Rightarrow> string \<Rightarrow> string \<Rightarrow> string list option \<Rightarrow> int option \<Rightarrow>
   string \<Rightarrow> string \<Rightarrow> database" where
  "add_citation db pid ref_id title authors year url notes =
     db\<lparr>citations := citations db @
           [\<lparr>c_id = Suc (cit_seq db), c_paper_id = pid, c_ref_id = ref_id,
             c_title = title, c_authors = or_empty authors, c_year = year,
             c_url = url, c_notes = notes\<rparr>],
        cit_seq := Suc (cit_seq db)\<rparr>"

subsection \<open>Search and queries\<close>

record summary =
  sm_id :: string
  sm_title :: string
  sm_status :: string
  sm_score :: real
  sm_authors :: "string list"
  sm_tags :: "string list"
  sm_created_at :: string

definition row_to_summary :: "paper_row \<Rightarrow> summary" where
  "row_to_summary row =
     \<lparr>sm_id = p_id row, sm_title = p_title row, sm_status = p_status row,
      sm_score = p_score row, sm_authors = p_authors row, sm_tags = p_tags row,
      sm_created_at = p_created_at row\<rparr>"

text \<open>
  The text of a \<^verbatim>\<open>json.dumps\<close> of a list of strings, with the default
  \<^verbatim>\<open>ensure_ascii=True\<close> and separator \<^verbatim>\<open>", "\<close>. \<open>CHR 0x22\<close> is the double quote and
  \<open>CHR 0x5C\<close> the backslash.
\<close>

definition hex_digit :: "nat \<Rightarrow> char" where
  "hex_digit n = ''0123456789abcdef'' ! (n mod 16)"

definition json_escape_char :: "char \<Rightarrow> string" where
  "json_escape_char c =
     (let n = (of_char c :: nat)
      in if c = CHR 0x22 then [CHR 0x5C, CHR 0x22]
         else if c = CHR 0x5C then [CHR 0x5C, CHR 0x5C]
         else if c = CHR 0x0A then [CHR 0x5C, CHR ''n'']
         else if c = CHR 0x0D then [CHR 0x5C, CHR ''r'']
         else if c = CHR 0x09 then [CHR 0x5C, CHR ''t'']
         else if c = CHR 0x0C then [CHR 0x5C, CHR ''f'']
         else if c = CHR 0x08 then [CHR 0x5C, CHR ''b'']
         else if 0x20 \<le> n \<and> n \<le> 0x7E then [c]
         else [CHR 0x5C, CHR ''u'', CHR ''0'', CHR ''0'', hex_digit (n div 16), hex_digit n])"

definition json_string :: "string \<Rightarrow> string" where
  "json_string s = [CHR 0x22] @ concat (map json_escape_char s) @ [CHR 0x22]"

fun join_comma :: "string list \<Rightarrow> string" where
  "join_comma [] = []"
| "join_comma [x] = x"
| "join_comma (x # y # ys) = x @ '', '' @ join_comma (y # ys)"

definition json_dumps :: "string list \<Rightarrow> string" where
  "json_dumps xs = ''['' @ join_comma (map json_string xs) @ '']''"

text \<open>
  SQLite's \<^verbatim>\<open>LIKE\<close> on two texts, pattern first: \<^verbatim>\<open>%\<close> stands for any run of
  characters, \<^verbatim>\<open>_\<close> for any one character, every other character for itself, ASCII
  letters without regard to case. There is no escape character.
\<close>

fun like :: "string \<Rightarrow> string \<Rightarrow> bool" where
  "like [] s = (s = [])"
| "like (p # ps) [] = (p = CHR ''%'' \<and> like ps [])"
| "like (p # ps) (c # cs) =
     (if p = CHR ''%'' then like ps (c # cs) \<or> like (p # ps) cs
      else (p = CHR ''_'' \<or> lower_char p = lower_char c) \<and> like ps cs)"

text \<open>
  The \<^verbatim>\<open>LIKE\<close> function reads both of its arguments as NUL-terminated text: of a value
  with an embedded NUL character it sees the part before the first NUL.
\<close>

definition c_str :: "string \<Rightarrow> string" where
  "c_str s = takeWhile (\<lambda>c. c \<noteq> CHR 0x00) s"

definition sql_like :: "string \<Rightarrow> string \<Rightarrow> bool" where
  "sql_like pat s = like (c_str pat) (c_str s)"

text \<open>\<^verbatim>\<open>LIMIT n\<close>: a negative \<open>n\<close> is no limit.\<close>

definition sql_limit :: "int \<Rightarrow> 'a list \<Rightarrow> 'a list" where
  "sql_limit n rows = (if n < 0 then rows else take (nat n) rows)"

text \<open>
  The \<^verbatim>\<open>LIKE\<close> statement of the fallback. With \<^verbatim>\<open>LIMIT 0\<close> or an empty table no row is
  tested. Otherwise the first test of the first row calls the \<^verbatim>\<open>LIKE\<close> function, which
  refuses a pattern of more than 50000 bytes: the statement raises
  \<^verbatim>\<open>sqlite3.OperationalError\<close>, and nothing in \<^verbatim>\<open>search\<close> catches it there.
\<close>

definition search_fallback :: "database \<Rightarrow> string \<Rightarrow> int \<Rightarrow> error + paper_row list" where
  "search_fallback db q limit =
     (let pat = ''%'' @ q @ ''%''
      in if limit = 0 \<or> papers db = [] then Inr []
         else if 50000 < length pat then Inl OperationalError
         else Inr (sql_limit limit
                (filter (\<lambda>r. sql_like pat (lower (p_title r))
                            \<or> sql_like pat (lower (p_abstract r))
                            \<or> sql_like pat (lower (json_dumps (p_tags r))))
                   (papers db))))"

text \<open>
  The first statement of \<^verbatim>\<open>search\<close>,
  \<^verbatim>\<open>SELECT p.* FROM papers p JOIN papers_fts f ... MATCH ? ORDER BY rank LIMIT ?\<close>, is
  answered by SQLite's FTS5 engine, which is not part of the repository. What the
  statement did in a call is an argument of \<open>search\<close>, as the clock readings are: it
  returned rows (\<open>Matched\<close>), or it raised an exception (\<open>Raised\<close>). It raises
  \<^verbatim>\<open>sqlite3.OperationalError\<close> when the query is not a well-formed FTS5 expression (the
  queries \<^verbatim>\<open>%\<close> and \<^verbatim>\<open>[\<close>, for instance) or the full-text module is missing, and
  \<^verbatim>\<open>sqlite3.DatabaseError\<close> when the index and the \<^verbatim>\<open>papers\<close> table disagree. The
  \<^verbatim>\<open>except\<close> clause of \<^verbatim>\<open>search\<close> names \<^verbatim>\<open>sqlite3.OperationalError\<close> and nothing else:
  every other exception leaves \<^verbatim>\<open>search\<close>.
\<close>

datatype match_outcome = Matched "paper_row list" | Raised error

definition search :: "match_outcome \<Rightarrow> database \<Rightarrow> string \<Rightarrow> int \<Rightarrow> error + summary list" where
  "search outcome db query limit =
     (let q = lower query
      in case outcome of
           Matched rows \<Rightarrow> Inr (map row_to_summary rows)
         | Raised e \<Rightarrow>
             if e = OperationalError
             then (case search_fallback db q limit of
                     Inl e' \<Rightarrow> Inl e'
                   | Inr rows \<Rightarrow> Inr (map row_to_summary rows))
             else Inl e)"

subsection \<open>Corpus statistics\<close>

text \<open>
  \<^verbatim>\<open>round(x, ndigits)\<close> on the idealised reals: the nearest multiple of
  \<open>10 ^ - ndigits\<close>, a tie going to the even one.
\<close>

definition round_half_even :: "real \<Rightarrow> int" where
  "round_half_even x =
     (let f = \<lfloor>x\<rfloor>; d = x - of_int f
      in if d < 1 / 2 then f
         else if 1 / 2 < d then f + 1
         else if even f then f else f + 1)"

definition py_round :: "real \<Rightarrow> nat \<Rightarrow> real" where
  "py_round x ndigits = of_int (round_half_even (x * 10 ^ ndigits)) / 10 ^ ndigits"

record stats =
  st_total_papers :: nat
  st_by_status :: "string \<Rightarrow> nat option"
  st_avg_score :: real
  st_total_hypotheses :: nat
  st_confirmed_hypotheses :: nat
  st_confirmation_rate :: real
  st_top_tags :: "(string \<times> nat) list"

text \<open>\<^verbatim>\<open>all_tags[t] = all_tags.get(t, 0) + 1\<close> on a dict that keeps insertion order.\<close>

fun bump :: "(string \<times> nat) list \<Rightarrow> string \<Rightarrow> (string \<times> nat) list" where
  "bump [] t = [(t, 1)]"
| "bump ((k, n) # kvs) t = (if k = t then (k, n + 1) # kvs else (k, n) # bump kvs t)"

text \<open>\<^verbatim>\<open>SELECT AVG(score) FROM papers WHERE score > 0\<close>: \<^verbatim>\<open>NULL\<close> over no rows.\<close>

definition sql_avg :: "real list \<Rightarrow> real option" where
  "sql_avg xs = (if xs = [] then None else Some (sum_list xs / real (length xs)))"

definition corpus_stats :: "database \<Rightarrow> error + stats" where
  "corpus_stats db =
     (let total = length (papers db);
          by_status = (\<lambda>s. let n = length (filter (\<lambda>r. p_status r = s) (papers db))
                            in if n = 0 then None else Some n);
          avg_score = sql_avg (filter (\<lambda>x. 0 < x) (map p_score (papers db)));
          hyp_count = length (hypotheses db);
          confirmed = length (filter (\<lambda>h. h_status h = ''confirmed'') (hypotheses db));
          tag_rows = map p_tags (papers db);
          all_tags = foldl bump [] (concat tag_rows);
          top_tags = take 10 (sort_key (\<lambda>(t, n). - int n) all_tags);
          rate = (if hyp_count \<noteq> 0
                  then (case py_div (real confirmed) hyp_count of
                          Inl e \<Rightarrow> Inl e
                        | Inr v \<Rightarrow> Inr (py_round v 3))
                  else Inr 0)
      in case rate of
           Inl e \<Rightarrow> Inl e
         | Inr r \<Rightarrow>
             Inr \<lparr>st_total_papers = total, st_by_status = by_status,
                  st_avg_score = py_round (case avg_score of None \<Rightarrow> 0 | Some a \<Rightarrow> a) 2,
                  st_total_hypotheses = hyp_count, st_confirmed_hypotheses = confirmed,
                  st_confirmation_rate = r, st_top_tags = top_tags\<rparr>)"

subsection \<open>Digests for the worked examples\<close>

text \<open>
  A finite excerpt of MD5: the \<^verbatim>\<open>hexdigest\<close> of each string that the worked examples
  below hash (the title followed by the second, or the paper id followed by the text and
  the timestamp). The general theorems hold for every digest function; the examples
  instantiate it with this excerpt, so the ids they show are the ids the program
  computes at the clock readings \<^verbatim>\<open>20260101T120000\<close> and
  \<^verbatim>\<open>2026-01-01T12:00:00.250000+00:00\<close>.
\<close>

definition md5_examples :: "string \<Rightarrow> string" where
  "md5_examples s =
     (case map_of
        [(''20260101T120000'', ''9a7aed7c6169ed90d053ef00083a2aef''),
         (''T20260101T120000'', ''9b1ffa61513b2bd4218560c67cc04d43''),
         (''Emergence in Multi-Agent Systems20260101T120000'',
          ''c7bbe1da68da3f45303de1b5e7482c88''),
         (''t-9b1ffa6151Test hypothesis2026-01-01T12:00:00.250000+00:00'',
          ''9b942520fa264406e936002f35dc7b8b'')] s of
        Some d \<Rightarrow> d
      | None \<Rightarrow> [])"

section \<open>Properties\<close>

subsection \<open>The guarded average of \<open>avg_confidence\<close>\<close>

lemma py_div_pos: "0 < n \<Longrightarrow> py_div a n = Inr (a / real n)"
  by (simp add: py_div_def)

text \<open>
  C10. A paper none of whose hypotheses has status \<^verbatim>\<open>proposed\<close> or \<^verbatim>\<open>testing\<close> (the
  empty list included) gets \<^verbatim>\<open>None\<close> from \<open>avg_confidence\<close>; and on no paper at all does
  \<open>avg_confidence\<close> end in an error: the division is reached only with a positive
  number of active hypotheses.
\<close>

theorem avg_confidence_guarded:
  "((\<forall>h \<in> set (rp_hypotheses p). hyp_status h \<noteq> ''proposed'' \<and> hyp_status h \<noteq> ''testing'')
      \<longrightarrow> avg_confidence p = Inr None)
   \<and> (\<forall>e. avg_confidence p \<noteq> Inl e)"
proof
  show "(\<forall>h \<in> set (rp_hypotheses p). hyp_status h \<noteq> ''proposed'' \<and> hyp_status h \<noteq> ''testing'')
          \<longrightarrow> avg_confidence p = Inr None"
  proof
    assume "\<forall>h \<in> set (rp_hypotheses p). hyp_status h \<noteq> ''proposed'' \<and> hyp_status h \<noteq> ''testing''"
    then have "filter is_active (rp_hypotheses p) = []"
      by (simp add: filter_empty_conv is_active_def)
    then show "avg_confidence p = Inr None"
      by (simp add: avg_confidence_def)
  qed
next
  show "\<forall>e. avg_confidence p \<noteq> Inl e"
  proof
    fix e
    show "avg_confidence p \<noteq> Inl e"
    proof (cases "filter is_active (rp_hypotheses p) = []")
      case True
      then show ?thesis by (simp add: avg_confidence_def)
    next
      case False
      then have "0 < length (filter is_active (rp_hypotheses p))" by simp
      then show ?thesis
        by (simp add: avg_confidence_def Let_def py_div_pos)
    qed
  qed
qed

theorem avg_confidence_guarded_witness:
  "avg_confidence
     \<lparr>rp_id = ''x'', rp_title = ''t'', rp_abstract = '''', rp_authors = [], rp_tags = [],
      rp_hypotheses =
        [\<lparr>hyp_id = ''h1'', hyp_text = ''a'', hyp_status = ''confirmed'', hyp_confidence = 0.9,
          hyp_evidence = [], hyp_created_at = '''', hyp_updated_at = ''''\<rparr>,
         \<lparr>hyp_id = ''h2'', hyp_text = ''b'', hyp_status = ''shelved'', hyp_confidence = 0.2,
          hyp_evidence = [], hyp_created_at = '''', hyp_updated_at = ''''\<rparr>],
      rp_citations = [], rp_status = ''draft'', rp_score = 0, rp_created_at = '''',
      rp_updated_at = '''', rp_metadata = []\<rparr> = Inr None"
  using avg_confidence_guarded
    [of "\<lparr>rp_id = ''x'', rp_title = ''t'', rp_abstract = '''', rp_authors = [], rp_tags = [],
      rp_hypotheses =
        [\<lparr>hyp_id = ''h1'', hyp_text = ''a'', hyp_status = ''confirmed'', hyp_confidence = 0.9,
          hyp_evidence = [], hyp_created_at = '''', hyp_updated_at = ''''\<rparr>,
         \<lparr>hyp_id = ''h2'', hyp_text = ''b'', hyp_status = ''shelved'', hyp_confidence = 0.2,
          hyp_evidence = [], hyp_created_at = '''', hyp_updated_at = ''''\<rparr>],
      rp_citations = [], rp_status = ''draft'', rp_score = 0, rp_created_at = '''',
      rp_updated_at = '''', rp_metadata = []\<rparr>"]
  by simp


subsection \<open>Deleting a paper\<close>

lemma find_filter_neq_None: "find (\<lambda>r. f r = k) (filter (\<lambda>r. f r \<noteq> k) xs) = None"
  by (simp add: find_None_iff)

text \<open>
  C6. \<open>delete_paper db pid\<close> removes every hypothesis and every citation whose
  \<open>paper_id\<close> is \<open>pid\<close> and the paper row with that id, and leaves all other rows as they
  were; it returns \<open>True\<close> exactly when the database held a paper with that id. In the
  database it returns, \<open>get_paper pid\<close> is \<open>None\<close> and no hypothesis and no citation
  refers to \<open>pid\<close>, so no query can return one.
\<close>

theorem delete_paper_cascade:
  assumes "delete_paper db pid = (db', removed)"
  shows "removed = (\<exists>r \<in> set (papers db). p_id r = pid)
       \<and> papers db' = filter (\<lambda>r. p_id r \<noteq> pid) (papers db)
       \<and> hypotheses db' = filter (\<lambda>h. h_paper_id h \<noteq> pid) (hypotheses db)
       \<and> citations db' = filter (\<lambda>c. c_paper_id c \<noteq> pid) (citations db)
       \<and> get_paper db' pid = None
       \<and> (\<forall>h \<in> set (hypotheses db'). h_paper_id h \<noteq> pid)
       \<and> (\<forall>c \<in> set (citations db'). c_paper_id c \<noteq> pid)"
proof -
  from assms have db': "db' = db\<lparr>hypotheses := filter (\<lambda>h. h_paper_id h \<noteq> pid) (hypotheses db),
                               citations := filter (\<lambda>c. c_paper_id c \<noteq> pid) (citations db),
                               papers := filter (\<lambda>r. p_id r \<noteq> pid) (papers db)\<rparr>"
    and removed: "removed = (0 < length (filter (\<lambda>r. p_id r = pid) (papers db)))"
    by (auto simp: delete_paper_def Let_def)
  have "removed = (\<exists>r \<in> set (papers db). p_id r = pid)"
    unfolding removed by (simp add: filter_empty_conv)
  moreover have "get_paper db' pid = None"
    by (simp add: get_paper_def db' find_filter_neq_None)
  ultimately show ?thesis by (simp add: db')
qed

theorem delete_paper_cascade_witness:
  "delete_paper
     \<lparr>papers =
        [\<lparr>p_id = ''p1'', p_title = ''Emergence'', p_abstract = '''', p_authors = [],
          p_tags = [], p_status = ''draft'', p_score = 0, p_created_at = ''t0'',
          p_updated_at = ''t0'', p_metadata = []\<rparr>],
      hypotheses =
        [\<lparr>h_id = ''h1'', h_paper_id = ''p1'', h_text = ''x'', h_status = ''proposed'',
          h_confidence = 0.5, h_evidence = [], h_created_at = ''t1'', h_updated_at = ''t1''\<rparr>,
         \<lparr>h_id = ''h2'', h_paper_id = ''p2'', h_text = ''y'', h_status = ''proposed'',
          h_confidence = 0.5, h_evidence = [], h_created_at = ''t2'', h_updated_at = ''t2''\<rparr>],
      citations =
        [\<lparr>c_id = 1, c_paper_id = ''p1'', c_ref_id = ''ref-001'', c_title = ''F'',
          c_authors = [], c_year = Some 2020, c_url = '''', c_notes = ''''\<rparr>],
      papers_fts = [], cit_seq = 1\<rparr> ''p1''
   = (\<lparr>papers = [],
       hypotheses =
        [\<lparr>h_id = ''h2'', h_paper_id = ''p2'', h_text = ''y'', h_status = ''proposed'',
          h_confidence = 0.5, h_evidence = [], h_created_at = ''t2'', h_updated_at = ''t2''\<rparr>],
       citations = [], papers_fts = [], cit_seq = 1\<rparr>, True)
   \<and> get_paper
        \<lparr>papers = [],
         hypotheses =
          [\<lparr>h_id = ''h2'', h_paper_id = ''p2'', h_text = ''y'', h_status = ''proposed'',
            h_confidence = 0.5, h_evidence = [], h_created_at = ''t2'', h_updated_at = ''t2''\<rparr>],
         citations = [], papers_fts = [], cit_seq = 1\<rparr> ''p1'' = None"
  using delete_paper_cascade
    [of "\<lparr>papers =
        [\<lparr>p_id = ''p1'', p_title = ''Emergence'', p_abstract = '''', p_authors = [],
          p_tags = [], p_status = ''draft'', p_score = 0, p_created_at = ''t0'',
          p_updated_at = ''t0'', p_metadata = []\<rparr>],
      hypotheses =
        [\<lparr>h_id = ''h1'', h_paper_id = ''p1'', h_text = ''x'', h_status = ''proposed'',
          h_confidence = 0.5, h_evidence = [], h_created_at = ''t1'', h_updated_at = ''t1''\<rparr>,
         \<lparr>h_id = ''h2'', h_paper_id = ''p2'', h_text = ''y'', h_status = ''proposed'',
          h_confidence = 0.5, h_evidence = [], h_created_at = ''t2'', h_updated_at = ''t2''\<rparr>],
      citations =
        [\<lparr>c_id = 1, c_paper_id = ''p1'', c_ref_id = ''ref-001'', c_title = ''F'',
          c_authors = [], c_year = Some 2020, c_url = '''', c_notes = ''''\<rparr>],
      papers_fts = [], cit_seq = 1\<rparr>" "''p1''"
      "\<lparr>papers = [],
       hypotheses =
        [\<lparr>h_id = ''h2'', h_paper_id = ''p2'', h_text = ''y'', h_status = ''proposed'',
          h_confidence = 0.5, h_evidence = [], h_created_at = ''t2'', h_updated_at = ''t2''\<rparr>],
       citations = [], papers_fts = [], cit_seq = 1\<rparr>" True]
  by (simp add: delete_paper_def)


subsection \<open>The confirmation rate of \<open>corpus_stats\<close>\<close>

lemma round_half_even_near: "\<bar>of_int (round_half_even x) - x\<bar> \<le> 1 / 2"
proof -
  have "of_int \<lfloor>x\<rfloor> \<le> x" and "x < of_int \<lfloor>x\<rfloor> + 1"
    by linarith+
  then show ?thesis
    by (auto simp: round_half_even_def Let_def)
qed

lemma py_round_3_near: "\<bar>py_round x 3 - x\<bar> \<le> 1 / 2000"
proof -
  have "\<bar>of_int (round_half_even (x * 1000)) - x * 1000\<bar> \<le> 1 / 2"
    by (rule round_half_even_near)
  then show ?thesis
    by (simp add: py_round_def abs_le_iff field_simps)
qed

text \<open>
  C9. \<open>corpus_stats\<close> never fails. Its \<open>confirmation_rate\<close> is \<open>0\<close> when the database
  holds no hypothesis; otherwise it differs from the number of confirmed hypotheses
  divided by the number of all hypotheses by at most \<open>0.0005\<close>, which is the quotient
  rounded to three decimal places.
\<close>

theorem corpus_stats_confirmation_rate:
  "\<exists>st. corpus_stats db = Inr st
     \<and> st_total_hypotheses st = length (hypotheses db)
     \<and> st_confirmed_hypotheses st =
         length (filter (\<lambda>h. h_status h = ''confirmed'') (hypotheses db))
     \<and> (st_total_hypotheses st = 0 \<longrightarrow> st_confirmation_rate st = 0)
     \<and> (st_total_hypotheses st \<noteq> 0 \<longrightarrow>
          \<bar>st_confirmation_rate st
             - real (st_confirmed_hypotheses st) / real (st_total_hypotheses st)\<bar> \<le> 1 / 2000)"
proof (cases "hypotheses db = []")
  case True
  then show ?thesis
    by (simp add: corpus_stats_def Let_def)
next
  case False
  then have pos: "0 < length (hypotheses db)" by simp
  define c where "c = length (filter (\<lambda>h. h_status h = ''confirmed'') (hypotheses db))"
  define n where "n = length (hypotheses db)"
  have near: "\<bar>py_round (real c / real n) 3 - real c / real n\<bar> \<le> 1 / 2000"
    by (rule py_round_3_near)
  from pos have "\<exists>st. corpus_stats db = Inr st \<and> st_total_hypotheses st = n
      \<and> st_confirmed_hypotheses st = c
      \<and> st_confirmation_rate st = py_round (real c / real n) 3"
    by (simp add: corpus_stats_def Let_def py_div_pos c_def n_def)
  then obtain st where st: "corpus_stats db = Inr st" "st_total_hypotheses st = n"
      "st_confirmed_hypotheses st = c"
      "st_confirmation_rate st = py_round (real c / real n) 3"
    by blast
  show ?thesis
  proof (intro exI conjI impI)
    show "corpus_stats db = Inr st" by (rule st(1))
    show "st_total_hypotheses st = length (hypotheses db)" by (simp add: st(2) n_def)
    show "st_confirmed_hypotheses st =
        length (filter (\<lambda>h. h_status h = ''confirmed'') (hypotheses db))"
      by (simp add: st(3) c_def)
    show "st_confirmation_rate st = 0" if "st_total_hypotheses st = 0"
      using that pos by (simp add: st(2) n_def)
    show "\<bar>st_confirmation_rate st
             - real (st_confirmed_hypotheses st) / real (st_total_hypotheses st)\<bar> \<le> 1 / 2000"
      unfolding st(2,3,4) by (rule near)
  qed
qed

theorem corpus_stats_confirmation_rate_witness:
  "(case corpus_stats init_db of Inl e \<Rightarrow> False | Inr st \<Rightarrow> st_confirmation_rate st = 0)
   \<and> (case corpus_stats
          (init_db\<lparr>hypotheses :=
             [\<lparr>h_id = ''h1'', h_paper_id = ''p1'', h_text = ''x'', h_status = ''confirmed'',
               h_confidence = 0.9, h_evidence = [], h_created_at = ''t1'', h_updated_at = ''t1''\<rparr>,
              \<lparr>h_id = ''h2'', h_paper_id = ''p1'', h_text = ''y'', h_status = ''proposed'',
               h_confidence = 0.5, h_evidence = [], h_created_at = ''t2'', h_updated_at = ''t2''\<rparr>,
              \<lparr>h_id = ''h3'', h_paper_id = ''p1'', h_text = ''z'', h_status = ''confirmed'',
               h_confidence = 0.7, h_evidence = [], h_created_at = ''t3'', h_updated_at = ''t3''\<rparr>]\<rparr>)
        of Inl e \<Rightarrow> False
         | Inr st \<Rightarrow> st_total_hypotheses st = 3 \<and> st_confirmed_hypotheses st = 2
                    \<and> st_confirmation_rate st = 667 / 1000)"
  using corpus_stats_confirmation_rate [of init_db]
    corpus_stats_confirmation_rate
      [of "init_db\<lparr>hypotheses :=
             [\<lparr>h_id = ''h1'', h_paper_id = ''p1'', h_text = ''x'', h_status = ''confirmed'',
               h_confidence = 0.9, h_evidence = [], h_created_at = ''t1'', h_updated_at = ''t1''\<rparr>,
              \<lparr>h_id = ''h2'', h_paper_id = ''p1'', h_text = ''y'', h_status = ''proposed'',
               h_confidence = 0.5, h_evidence = [], h_created_at = ''t2'', h_updated_at = ''t2''\<rparr>,
              \<lparr>h_id = ''h3'', h_paper_id = ''p1'', h_text = ''z'', h_status = ''confirmed'',
               h_confidence = 0.7, h_evidence = [], h_created_at = ''t3'', h_updated_at = ''t3''\<rparr>]\<rparr>"]
  by (simp add: corpus_stats_def init_db_def py_div_def py_round_def round_half_even_def
      sql_avg_def Let_def)


subsection \<open>Adding a paper\<close>

lemma find_append_fresh: "\<forall>x \<in> set xs. \<not> P x \<Longrightarrow> find P (xs @ ys) = find P ys"
  by (induction xs) auto

lemma add_paper_id: "snd (add_paper md5 sec ts db title abstract authors tags metadata)
    = paper_id md5 sec title"
  by (simp add: add_paper_def Let_def)

lemma add_paper_fresh_papers:
  assumes "paper_id md5 sec title \<notin> set (map p_id (papers db))"
  shows "papers (fst (add_paper md5 sec ts db title abstract authors tags metadata)) =
     papers db @
       [\<lparr>p_id = paper_id md5 sec title, p_title = title, p_abstract = abstract,
         p_authors = or_empty authors, p_tags = or_empty tags,
         p_status = ''draft'', p_score = 0, p_created_at = ts, p_updated_at = ts,
         p_metadata = or_empty metadata\<rparr>]"
  using assms by (simp add: add_paper_def Let_def insert_or_ignore_paper_def)

lemma get_paper_appended:
  assumes "p_id row \<notin> set (map p_id rows)" and "papers db = rows @ [row]"
  shows "get_paper db (p_id row) = Some (row_to_paper db row)"
proof -
  from assms(1) have "\<forall>x \<in> set rows. \<not> p_id x = p_id row"
    by (metis image_eqI list.set_map)
  then have "find (\<lambda>r. p_id r = p_id row) (rows @ [row]) = Some row"
    by (simp add: find_append_fresh)
  then show ?thesis by (simp add: get_paper_def assms(2))
qed

lemma add_paper_hypotheses:
  "hypotheses (fst (add_paper md5 sec ts db title abstract authors tags metadata))
     = hypotheses db"
  by (simp add: add_paper_def Let_def insert_or_ignore_fts_def)

lemma add_paper_citations:
  "citations (fst (add_paper md5 sec ts db title abstract authors tags metadata))
     = citations db"
  by (simp add: add_paper_def Let_def insert_or_ignore_fts_def)

lemma add_paper_papers_fts:
  "papers_fts (fst (add_paper md5 sec ts db title abstract authors tags metadata)) =
     papers_fts db @
       [\<lparr>f_id = paper_id md5 sec title, f_title = title, f_abstract = abstract,
         f_tags = join_space (or_empty tags)\<rparr>]"
  by (simp add: add_paper_def Let_def insert_or_ignore_fts_def)

lemma add_paper_cit_seq:
  "cit_seq (fst (add_paper md5 sec ts db title abstract authors tags metadata)) = cit_seq db"
  by (simp add: add_paper_def Let_def)

text \<open>
  C1, as the code has it. \<open>add_paper\<close> checks nothing about the title and has no failing
  branch. For every title, the empty one included, whose generated id is not yet stored,
  it appends one paper row holding the arguments of the call with status \<^verbatim>\<open>draft\<close>,
  score \<open>0\<close> and \<open>created_at = updated_at = ts\<close> (the reading of \<^verbatim>\<open>_now()\<close>), appends one
  entry for that paper to the search index, changes nothing else, and returns the
  generated id; \<open>get_paper\<close> of that id then yields that paper.
\<close>

theorem add_paper_inserts_draft:
  assumes fresh: "paper_id md5 sec title \<notin> set (map p_id (papers db))"
    and res: "add_paper md5 sec ts db title abstract authors tags metadata = (db', pid)"
  shows "pid = paper_id md5 sec title
       \<and> papers db' = papers db @
            [\<lparr>p_id = pid, p_title = title, p_abstract = abstract,
              p_authors = or_empty authors, p_tags = or_empty tags,
              p_status = ''draft'', p_score = 0, p_created_at = ts, p_updated_at = ts,
              p_metadata = or_empty metadata\<rparr>]
       \<and> papers_fts db' = papers_fts db @
            [\<lparr>f_id = pid, f_title = title, f_abstract = abstract,
              f_tags = join_space (or_empty tags)\<rparr>]
       \<and> hypotheses db' = hypotheses db \<and> citations db' = citations db
       \<and> cit_seq db' = cit_seq db
       \<and> (\<exists>paper. get_paper db' pid = Some paper \<and> rp_id paper = pid
              \<and> rp_title paper = title \<and> rp_status paper = ''draft'' \<and> rp_score paper = 0
              \<and> rp_created_at paper = ts \<and> rp_updated_at paper = ts)"
proof -
  define row where "row =
    \<lparr>p_id = paper_id md5 sec title, p_title = title, p_abstract = abstract,
     p_authors = or_empty authors, p_tags = or_empty tags,
     p_status = ''draft'', p_score = 0, p_created_at = ts, p_updated_at = ts,
     p_metadata = or_empty metadata\<rparr>"
  from res have pid: "pid = paper_id md5 sec title"
    using add_paper_id [of md5 sec ts db title abstract authors tags metadata] by simp
  from res have db': "db' = fst (add_paper md5 sec ts db title abstract authors tags metadata)"
    by simp
  from fresh have rows: "papers db' = papers db @ [row]"
    unfolding db' row_def by (rule add_paper_fresh_papers)
  have fts: "papers_fts db' = papers_fts db @
      [\<lparr>f_id = pid, f_title = title, f_abstract = abstract,
        f_tags = join_space (or_empty tags)\<rparr>]"
    unfolding db' pid by (rule add_paper_papers_fts)
  have rest: "hypotheses db' = hypotheses db" "citations db' = citations db"
    "cit_seq db' = cit_seq db"
    unfolding db' by (rule add_paper_hypotheses add_paper_citations add_paper_cit_seq)+
  have "p_id row \<notin> set (map p_id (papers db))"
    using fresh by (simp add: row_def)
  then have "get_paper db' (p_id row) = Some (row_to_paper db' row)"
    using rows by (rule get_paper_appended)
  then have got: "get_paper db' pid = Some (row_to_paper db' row)"
    by (simp add: pid row_def)
  have "rp_id (row_to_paper db' row) = pid \<and> rp_title (row_to_paper db' row) = title
      \<and> rp_status (row_to_paper db' row) = ''draft'' \<and> rp_score (row_to_paper db' row) = 0
      \<and> rp_created_at (row_to_paper db' row) = ts \<and> rp_updated_at (row_to_paper db' row) = ts"
    by (simp add: row_to_paper_def Let_def row_def pid)
  with got have paper: "\<exists>paper. get_paper db' pid = Some paper \<and> rp_id paper = pid
      \<and> rp_title paper = title \<and> rp_status paper = ''draft'' \<and> rp_score paper = 0
      \<and> rp_created_at paper = ts \<and> rp_updated_at paper = ts"
    by blast
  from rows have rows': "papers db' = papers db @
      [\<lparr>p_id = pid, p_title = title, p_abstract = abstract,
        p_authors = or_empty authors, p_tags = or_empty tags,
        p_status = ''draft'', p_score = 0, p_created_at = ts, p_updated_at = ts,
        p_metadata = or_empty metadata\<rparr>]"
    by (simp add: row_def pid)
  show ?thesis
    using pid rows' fts rest paper by (intro conjI)
qed

lemma paper_id_Emergence:
  "paper_id md5_examples ''20260101T120000'' ''Emergence in Multi-Agent Systems''
     = ''emergence-in-multi-agent-c7bbe1da68''"
  by (simp add: paper_id_def md5_examples_def lower_def lower_char_def strip_hyphen_def
      is_slug_char_def)

lemma paper_id_empty: "paper_id md5_examples ''20260101T120000'' '''' = ''-9a7aed7c61''"
  by (simp add: paper_id_def md5_examples_def lower_def strip_hyphen_def)

lemma paper_id_T: "paper_id md5_examples ''20260101T120000'' ''T'' = ''t-9b1ffa6151''"
  by (simp add: paper_id_def md5_examples_def lower_def lower_char_def strip_hyphen_def
      is_slug_char_def)

theorem add_paper_inserts_draft_witness:
  "add_paper md5_examples ''20260101T120000'' ''2026-01-01T12:00:00.250000+00:00'' init_db
     ''Emergence in Multi-Agent Systems'' ''We study emergence.'' (Some [''A. Author''])
     (Some [''multi-agent'', ''emergence'']) None
   = (\<lparr>papers =
         [\<lparr>p_id = ''emergence-in-multi-agent-c7bbe1da68'',
           p_title = ''Emergence in Multi-Agent Systems'',
           p_abstract = ''We study emergence.'', p_authors = [''A. Author''],
           p_tags = [''multi-agent'', ''emergence''], p_status = ''draft'', p_score = 0,
           p_created_at = ''2026-01-01T12:00:00.250000+00:00'',
           p_updated_at = ''2026-01-01T12:00:00.250000+00:00'', p_metadata = []\<rparr>],
       hypotheses = [], citations = [],
       papers_fts =
         [\<lparr>f_id = ''emergence-in-multi-agent-c7bbe1da68'',
           f_title = ''Emergence in Multi-Agent Systems'',
           f_abstract = ''We study emergence.'', f_tags = ''multi-agent emergence''\<rparr>],
       cit_seq = 0\<rparr>, ''emergence-in-multi-agent-c7bbe1da68'')
   \<and> (\<exists>paper.
        get_paper
          \<lparr>papers =
             [\<lparr>p_id = ''emergence-in-multi-agent-c7bbe1da68'',
               p_title = ''Emergence in Multi-Agent Systems'',
               p_abstract = ''We study emergence.'', p_authors = [''A. Author''],
               p_tags = [''multi-agent'', ''emergence''], p_status = ''draft'', p_score = 0,
               p_created_at = ''2026-01-01T12:00:00.250000+00:00'',
               p_updated_at = ''2026-01-01T12:00:00.250000+00:00'', p_metadata = []\<rparr>],
           hypotheses = [], citations = [],
           papers_fts =
             [\<lparr>f_id = ''emergence-in-multi-agent-c7bbe1da68'',
               f_title = ''Emergence in Multi-Agent Systems'',
               f_abstract = ''We study emergence.'', f_tags = ''multi-agent emergence''\<rparr>],
           cit_seq = 0\<rparr> ''emergence-in-multi-agent-c7bbe1da68'' = Some paper
        \<and> rp_status paper = ''draft'' \<and> rp_score paper = 0
        \<and> rp_created_at paper = ''2026-01-01T12:00:00.250000+00:00''
        \<and> rp_updated_at paper = ''2026-01-01T12:00:00.250000+00:00'')"
proof -
  have fresh: "paper_id md5_examples ''20260101T120000'' ''Emergence in Multi-Agent Systems''
      \<notin> set (map p_id (papers init_db))"
    by (simp add: init_db_def)
  have res: "add_paper md5_examples ''20260101T120000'' ''2026-01-01T12:00:00.250000+00:00''
     init_db ''Emergence in Multi-Agent Systems'' ''We study emergence.'' (Some [''A. Author''])
     (Some [''multi-agent'', ''emergence'']) None
   = (\<lparr>papers =
         [\<lparr>p_id = ''emergence-in-multi-agent-c7bbe1da68'',
           p_title = ''Emergence in Multi-Agent Systems'',
           p_abstract = ''We study emergence.'', p_authors = [''A. Author''],
           p_tags = [''multi-agent'', ''emergence''], p_status = ''draft'', p_score = 0,
           p_created_at = ''2026-01-01T12:00:00.250000+00:00'',
           p_updated_at = ''2026-01-01T12:00:00.250000+00:00'', p_metadata = []\<rparr>],
       hypotheses = [], citations = [],
       papers_fts =
         [\<lparr>f_id = ''emergence-in-multi-agent-c7bbe1da68'',
           f_title = ''Emergence in Multi-Agent Systems'',
           f_abstract = ''We study emergence.'', f_tags = ''multi-agent emergence''\<rparr>],
       cit_seq = 0\<rparr>, ''emergence-in-multi-agent-c7bbe1da68'')"
    by (simp add: add_paper_def paper_id_Emergence init_db_def insert_or_ignore_paper_def
        insert_or_ignore_fts_def or_empty_def Let_def)
  from add_paper_inserts_draft [OF fresh res] res show ?thesis by blast
qed

text \<open>
  C1 as stated fails at the empty title: the call returns an id and the database holds a
  new paper row and a new index entry.
\<close>

theorem add_paper_empty_title_counterexample:
  "add_paper md5_examples ''20260101T120000'' ''2026-01-01T12:00:00.250000+00:00'' init_db
     '''' '''' None None None
   = (\<lparr>papers =
         [\<lparr>p_id = ''-9a7aed7c61'', p_title = '''', p_abstract = '''', p_authors = [],
           p_tags = [], p_status = ''draft'', p_score = 0,
           p_created_at = ''2026-01-01T12:00:00.250000+00:00'',
           p_updated_at = ''2026-01-01T12:00:00.250000+00:00'', p_metadata = []\<rparr>],
       hypotheses = [], citations = [],
       papers_fts =
         [\<lparr>f_id = ''-9a7aed7c61'', f_title = '''', f_abstract = '''', f_tags = ''''\<rparr>],
       cit_seq = 0\<rparr>, ''-9a7aed7c61'')"
  by (simp add: add_paper_def paper_id_empty init_db_def insert_or_ignore_paper_def
      insert_or_ignore_fts_def or_empty_def Let_def)


subsection \<open>Reading back what \<open>add_paper\<close> stored\<close>

lemma add_paper_stored_papers:
  assumes "paper_id md5 sec title \<in> set (map p_id (papers db))"
  shows "papers (fst (add_paper md5 sec ts db title abstract authors tags metadata)) = papers db"
  using assms by (simp add: add_paper_def Let_def insert_or_ignore_paper_def)

lemma row_to_paper_cong:
  assumes "hypotheses db' = hypotheses db" and "citations db' = citations db"
  shows "row_to_paper db' = row_to_paper db"
  using assms by (intro ext) (simp add: row_to_paper_def)

lemma get_paper_cong:
  assumes "papers db' = papers db" and "hypotheses db' = hypotheses db"
    and "citations db' = citations db"
  shows "get_paper db' pid = get_paper db pid"
proof -
  have "row_to_paper db' = row_to_paper db"
    using assms(2,3) by (rule row_to_paper_cong)
  then show ?thesis
    using assms(1) by (simp add: get_paper_def split: option.split)
qed

text \<open>
  C4, as the code has it. When the id that \<open>add_paper\<close> generates is not yet stored,
  \<open>get_paper\<close> of the returned id yields a paper whose title, abstract, authors and tags
  are the arguments of the call, the two lists in the order given. When the id is
  already stored, the insert is ignored and \<open>get_paper\<close> yields what it yielded before
  the call.
\<close>

theorem add_paper_get_paper_roundtrip:
  assumes res: "add_paper md5 sec ts db title abstract (Some authors) (Some tags) metadata
      = (db', pid)"
  shows "(pid \<notin> set (map p_id (papers db)) \<longrightarrow>
            (\<exists>paper. get_paper db' pid = Some paper \<and> rp_title paper = title
               \<and> rp_abstract paper = abstract \<and> rp_authors paper = authors
               \<and> rp_tags paper = tags))
       \<and> (pid \<in> set (map p_id (papers db)) \<longrightarrow> get_paper db' pid = get_paper db pid)"
proof -
  from res have pid: "pid = paper_id md5 sec title"
    using add_paper_id [of md5 sec ts db title abstract "Some authors" "Some tags" metadata]
    by simp
  from res have db': "db' = fst (add_paper md5 sec ts db title abstract (Some authors)
      (Some tags) metadata)"
    by simp
  show ?thesis
  proof (intro conjI impI)
    assume fresh: "pid \<notin> set (map p_id (papers db))"
    define row where "row =
      \<lparr>p_id = pid, p_title = title, p_abstract = abstract,
       p_authors = authors, p_tags = tags,
       p_status = ''draft'', p_score = 0, p_created_at = ts, p_updated_at = ts,
       p_metadata = or_empty metadata\<rparr>"
    from fresh have rows: "papers db' = papers db @ [row]"
      unfolding db' row_def pid by (simp add: add_paper_fresh_papers or_empty_def)
    have "p_id row \<notin> set (map p_id (papers db))"
      using fresh by (simp add: row_def)
    then have "get_paper db' (p_id row) = Some (row_to_paper db' row)"
      using rows by (rule get_paper_appended)
    then have "get_paper db' pid = Some (row_to_paper db' row)"
      by (simp add: row_def)
    moreover have "rp_title (row_to_paper db' row) = title
        \<and> rp_abstract (row_to_paper db' row) = abstract
        \<and> rp_authors (row_to_paper db' row) = authors
        \<and> rp_tags (row_to_paper db' row) = tags"
      by (simp add: row_to_paper_def Let_def row_def)
    ultimately show "\<exists>paper. get_paper db' pid = Some paper \<and> rp_title paper = title
        \<and> rp_abstract paper = abstract \<and> rp_authors paper = authors \<and> rp_tags paper = tags"
      by blast
  next
    assume "pid \<in> set (map p_id (papers db))"
    then have "papers db' = papers db"
      unfolding db' pid by (rule add_paper_stored_papers)
    then show "get_paper db' pid = get_paper db pid"
      unfolding db' by (intro get_paper_cong add_paper_hypotheses add_paper_citations)
  qed
qed

theorem add_paper_get_paper_roundtrip_witness:
  "(\<exists>paper.
      get_paper
        (fst (add_paper md5_examples ''20260101T120000'' ''2026-01-01T12:00:00.250000+00:00''
               init_db ''T'' ''a'' (Some [''B'', ''A'']) (Some [''y'', ''x'']) None))
        ''t-9b1ffa6151'' = Some paper
      \<and> rp_title paper = ''T'' \<and> rp_abstract paper = ''a''
      \<and> rp_authors paper = [''B'', ''A''] \<and> rp_tags paper = [''y'', ''x''])
   \<and> get_paper
        (fst (add_paper md5_examples ''20260101T120000'' ''2026-01-01T12:00:00.750000+00:00''
               (fst (add_paper md5_examples ''20260101T120000''
                      ''2026-01-01T12:00:00.250000+00:00'' init_db ''T'' ''a''
                      (Some [''B'', ''A'']) (Some [''y'', ''x'']) None))
               ''T'' ''b'' (Some []) (Some []) None))
        ''t-9b1ffa6151''
     = get_paper
        (fst (add_paper md5_examples ''20260101T120000'' ''2026-01-01T12:00:00.250000+00:00''
               init_db ''T'' ''a'' (Some [''B'', ''A'']) (Some [''y'', ''x'']) None))
        ''t-9b1ffa6151''"
proof -
  let ?db1 = "fst (add_paper md5_examples ''20260101T120000''
      ''2026-01-01T12:00:00.250000+00:00'' init_db ''T'' ''a''
      (Some [''B'', ''A'']) (Some [''y'', ''x'']) None)"
  let ?db2 = "fst (add_paper md5_examples ''20260101T120000''
      ''2026-01-01T12:00:00.750000+00:00'' ?db1 ''T'' ''b'' (Some []) (Some []) None)"
  have r1: "add_paper md5_examples ''20260101T120000'' ''2026-01-01T12:00:00.250000+00:00''
      init_db ''T'' ''a'' (Some [''B'', ''A'']) (Some [''y'', ''x'']) None
      = (?db1, ''t-9b1ffa6151'')"
    by (simp add: prod_eq_iff add_paper_id paper_id_T)
  have r2: "add_paper md5_examples ''20260101T120000'' ''2026-01-01T12:00:00.750000+00:00''
      ?db1 ''T'' ''b'' (Some []) (Some []) None = (?db2, ''t-9b1ffa6151'')"
    by (simp add: prod_eq_iff add_paper_id paper_id_T)
  have fresh: "''t-9b1ffa6151'' \<notin> set (map p_id (papers init_db))"
    by (simp add: init_db_def)
  have stored: "''t-9b1ffa6151'' \<in> set (map p_id (papers ?db1))"
    by (simp add: add_paper_def Let_def paper_id_T init_db_def insert_or_ignore_paper_def)
  from add_paper_get_paper_roundtrip [OF r1] fresh
    add_paper_get_paper_roundtrip [OF r2] stored
  show ?thesis by blast
qed

text \<open>
  C4 as stated fails when the generated id is already stored: a second call with the
  same title in the same second and another abstract returns the id of the first paper,
  and \<open>get_paper\<close> yields the first abstract, not the argument of the second call.
\<close>

theorem add_paper_get_paper_roundtrip_counterexample:
  "snd (add_paper md5_examples ''20260101T120000'' ''2026-01-01T12:00:00.750000+00:00''
          (fst (add_paper md5_examples ''20260101T120000''
                 ''2026-01-01T12:00:00.250000+00:00'' init_db ''T'' ''a''
                 (Some []) (Some []) None))
          ''T'' ''b'' (Some []) (Some []) None) = ''t-9b1ffa6151''
   \<and> map_option rp_abstract
        (get_paper
          (fst (add_paper md5_examples ''20260101T120000'' ''2026-01-01T12:00:00.750000+00:00''
                 (fst (add_paper md5_examples ''20260101T120000''
                        ''2026-01-01T12:00:00.250000+00:00'' init_db ''T'' ''a''
                        (Some []) (Some []) None))
                 ''T'' ''b'' (Some []) (Some []) None))
          ''t-9b1ffa6151'') = Some ''a''"
  by (simp add: add_paper_def Let_def paper_id_T init_db_def insert_or_ignore_paper_def
      insert_or_ignore_fts_def or_empty_def get_paper_def row_to_paper_def)


subsection \<open>The range of the stored confidence\<close>

lemma update_score_clamped:
  assumes "\<forall>r \<in> set (papers db). 0 \<le> p_score r \<and> p_score r \<le> 10"
  shows "\<forall>r \<in> set (papers (update_score ts db pid score)). 0 \<le> p_score r \<and> p_score r \<le> 10"
  using assms by (auto simp: update_score_def)

text \<open>
  C2 at a failing input. \<open>add_hypothesis\<close> with confidence \<open>1.5\<close> stores \<open>1.5\<close>, and
  \<open>get_paper\<close> reports it; \<open>update_hypothesis\<close> of that hypothesis with confidence
  \<open>-0.25\<close> then stores \<open>-0.25\<close>. Neither value lies in the interval from \<open>0\<close> to \<open>1\<close>:
  only \<open>update_score\<close> and the dataclass method \<open>update_confidence\<close> clamp.
\<close>

theorem hypothesis_confidence_unclamped:
  "(case add_hypothesis md5_examples ''2026-01-01T12:00:00.250000+00:00''
           (fst (add_paper md5_examples ''20260101T120000''
                  ''2026-01-01T12:00:00.125000+00:00'' init_db ''T'' '''' None None None))
           ''t-9b1ffa6151'' ''Test hypothesis'' 1.5 None of
      Inl e \<Rightarrow> None
    | Inr (db, hid) \<Rightarrow>
        Some (hid,
              map_option (\<lambda>p. map hyp_confidence (rp_hypotheses p))
                (get_paper db ''t-9b1ffa6151''),
              (case update_hypothesis ''2026-01-01T12:00:00.750000+00:00'' db hid None
                      (Some (- 0.25)) None of
                 Inl e \<Rightarrow> None
               | Inr db' \<Rightarrow>
                   map_option (\<lambda>p. map hyp_confidence (rp_hypotheses p))
                     (get_paper db' ''t-9b1ffa6151''))))
   = Some (''9b942520fa26'', Some [1.5], Some [- 0.25])"
  by (simp add: add_hypothesis_def add_paper_def paper_id_T init_db_def md5_examples_def
      insert_or_ignore_paper_def insert_or_ignore_fts_def or_empty_def Let_def
      get_paper_def row_to_paper_def update_hypothesis_def)


subsection \<open>The search index and the papers\<close>

lemma add_paper_indexed:
  "\<exists>e \<in> set (papers_fts (fst (add_paper md5 sec ts db title abstract authors tags metadata))).
     f_id e = paper_id md5 sec title \<and> f_title e = title \<and> f_abstract e = abstract
     \<and> f_tags e = join_space (or_empty tags)"
  by (simp add: add_paper_def Let_def insert_or_ignore_fts_def)

text \<open>
  C3 at a failing input. After \<open>add_paper\<close> of the title \<^verbatim>\<open>T\<close> and \<open>delete_paper\<close> of the
  id it returned, \<open>delete_paper\<close> reports a removed paper, no paper row is left, and the
  index still holds the entry of the deleted paper: \<open>delete_paper\<close> deletes from
  \<^verbatim>\<open>hypotheses\<close>, \<^verbatim>\<open>citations\<close> and \<^verbatim>\<open>papers\<close> and never from \<^verbatim>\<open>papers_fts\<close>.
\<close>

theorem delete_paper_leaves_index_entry:
  "delete_paper
     (fst (add_paper md5_examples ''20260101T120000'' ''2026-01-01T12:00:00.250000+00:00''
            init_db ''T'' ''a'' None (Some [''x'']) None))
     ''t-9b1ffa6151''
   = (\<lparr>papers = [], hypotheses = [], citations = [],
       papers_fts =
         [\<lparr>f_id = ''t-9b1ffa6151'', f_title = ''T'', f_abstract = ''a'', f_tags = ''x''\<rparr>],
       cit_seq = 0\<rparr>, True)"
  by (simp add: delete_paper_def add_paper_def paper_id_T init_db_def
      insert_or_ignore_paper_def insert_or_ignore_fts_def or_empty_def Let_def)

subsection \<open>Updating a hypothesis\<close>

lemma update_hypothesis_missing:
  "hyp_id' \<notin> set (map h_id (hypotheses db)) \<Longrightarrow>
     update_hypothesis ts db hyp_id' status confidence evidence = Inl KeyError"
proof -
  assume "hyp_id' \<notin> set (map h_id (hypotheses db))"
  then have "find (\<lambda>h. h_id h = hyp_id') (hypotheses db) = None"
    by (auto simp: find_None_iff)
  then show ?thesis by (simp add: update_hypothesis_def)
qed

text \<open>
  C5 at a failing input. The stored hypothesis has the evidence list \<^verbatim>\<open>["e1"]\<close>;
  \<open>update_hypothesis\<close> is called with the empty list as evidence and nothing else. The
  call succeeds and the stored evidence is still \<^verbatim>\<open>["e1"]\<close>: the empty list is falsy, so
  \<^verbatim>\<open>evidence or json.loads(row[5])\<close> takes the stored list. Only \<open>updated_at\<close> changes.
\<close>

theorem update_hypothesis_empty_evidence_kept:
  "update_hypothesis ''2026-01-01T12:00:00.750000+00:00''
     (init_db\<lparr>hypotheses :=
        [\<lparr>h_id = ''9b942520fa26'', h_paper_id = ''t-9b1ffa6151'',
          h_text = ''Test hypothesis'', h_status = ''proposed'', h_confidence = 0.5,
          h_evidence = [''e1''], h_created_at = ''2026-01-01T12:00:00.250000+00:00'',
          h_updated_at = ''2026-01-01T12:00:00.250000+00:00''\<rparr>]\<rparr>)
     ''9b942520fa26'' None None (Some [])
   = Inr (init_db\<lparr>hypotheses :=
        [\<lparr>h_id = ''9b942520fa26'', h_paper_id = ''t-9b1ffa6151'',
          h_text = ''Test hypothesis'', h_status = ''proposed'', h_confidence = 0.5,
          h_evidence = [''e1''], h_created_at = ''2026-01-01T12:00:00.250000+00:00'',
          h_updated_at = ''2026-01-01T12:00:00.750000+00:00''\<rparr>]\<rparr>)"
  by (simp add: update_hypothesis_def init_db_def)

subsection \<open>Adding the same paper twice\<close>

lemma add_paper_twice_papers:
  "papers (fst (add_paper md5 sec ts' (fst (add_paper md5 sec ts db title abstract authors
       tags metadata)) title abstract' authors' tags' metadata'))
   = papers (fst (add_paper md5 sec ts db title abstract authors tags metadata))"
  by (simp add: add_paper_def Let_def insert_or_ignore_paper_def)

text \<open>
  C8 at a failing input. \<open>add_paper\<close> is called twice with the same arguments in the same
  second. Both calls return the same id and the second leaves the paper row of the
  first as it is, but it appends a second entry for that id to the index: the databases
  after one call and after two calls differ.
\<close>

theorem add_paper_twice_index_grows:
  "add_paper md5_examples ''20260101T120000'' ''2026-01-01T12:00:00.750000+00:00''
     (fst (add_paper md5_examples ''20260101T120000'' ''2026-01-01T12:00:00.250000+00:00''
            init_db ''T'' ''a'' None (Some [''x'']) None))
     ''T'' ''a'' None (Some [''x'']) None
   = (\<lparr>papers =
         [\<lparr>p_id = ''t-9b1ffa6151'', p_title = ''T'', p_abstract = ''a'', p_authors = [],
           p_tags = [''x''], p_status = ''draft'', p_score = 0,
           p_created_at = ''2026-01-01T12:00:00.250000+00:00'',
           p_updated_at = ''2026-01-01T12:00:00.250000+00:00'', p_metadata = []\<rparr>],
       hypotheses = [], citations = [],
       papers_fts =
         [\<lparr>f_id = ''t-9b1ffa6151'', f_title = ''T'', f_abstract = ''a'', f_tags = ''x''\<rparr>,
          \<lparr>f_id = ''t-9b1ffa6151'', f_title = ''T'', f_abstract = ''a'', f_tags = ''x''\<rparr>],
       cit_seq = 0\<rparr>, ''t-9b1ffa6151'')"
  by (simp add: add_paper_def paper_id_T init_db_def insert_or_ignore_paper_def
      insert_or_ignore_fts_def or_empty_def Let_def)

subsection \<open>Searching\<close>

lemma search_uncaught: "e \<noteq> OperationalError \<Longrightarrow> search (Raised e) db query limit = Inl e"
  by (simp add: search_def)

text \<open>
  C7 at a failing input. The store holds one paper with title \<^verbatim>\<open>T\<close>, abstract \<^verbatim>\<open>a\<close> and
  the tag \<^verbatim>\<open>x\<close>. Neither \<^verbatim>\<open>%\<close> nor \<^verbatim>\<open>[\<close> occurs in the title, the abstract or the tag:
  \<open>matches_query\<close>, the substring search of the dataclass, is false for both. Both are
  malformed FTS5 expressions, so the \<^verbatim>\<open>MATCH\<close> statement raises
  \<^verbatim>\<open>sqlite3.OperationalError\<close> and the \<^verbatim>\<open>LIKE\<close> statement answers. \<open>search\<close> returns the
  paper for both queries: \<^verbatim>\<open>%\<close> is pasted into the pattern, where it is a wildcard, and
  \<^verbatim>\<open>[\<close> is found in the JSON text of the tags column.
\<close>

theorem search_absent_token_returns_paper:
  "search (Raised OperationalError)
     (fst (add_paper md5_examples ''20260101T120000'' ''2026-01-01T12:00:00.250000+00:00''
            init_db ''T'' ''a'' None (Some [''x'']) None))
     ''%'' 20
   = Inr [\<lparr>sm_id = ''t-9b1ffa6151'', sm_title = ''T'', sm_status = ''draft'', sm_score = 0,
           sm_authors = [], sm_tags = [''x''],
           sm_created_at = ''2026-01-01T12:00:00.250000+00:00''\<rparr>]
   \<and> search (Raised OperationalError)
       (fst (add_paper md5_examples ''20260101T120000'' ''2026-01-01T12:00:00.250000+00:00''
              init_db ''T'' ''a'' None (Some [''x'']) None))
       ''['' 20
     = Inr [\<lparr>sm_id = ''t-9b1ffa6151'', sm_title = ''T'', sm_status = ''draft'', sm_score = 0,
             sm_authors = [], sm_tags = [''x''],
             sm_created_at = ''2026-01-01T12:00:00.250000+00:00''\<rparr>]
   \<and> map_option (\<lambda>p. (matches_query p ''%'', matches_query p ''[''))
       (get_paper
         (fst (add_paper md5_examples ''20260101T120000'' ''2026-01-01T12:00:00.250000+00:00''
                init_db ''T'' ''a'' None (Some [''x'']) None))
         ''t-9b1ffa6151'') = Some (False, False)"
  by (simp add: search_def search_fallback_def sql_like_def c_str_def sql_limit_def
      add_paper_def paper_id_T init_db_def insert_or_ignore_paper_def
      insert_or_ignore_fts_def or_empty_def lower_def lower_char_def row_to_summary_def
      json_dumps_def json_string_def json_escape_char_def get_paper_def row_to_paper_def
      matches_query_def Let_def)

end
